theory Spec2Isabelle
  imports Main
begin

section \<open>The Python binding of the lookup table (pysrc/Table.cpp)\<close>

subsection \<open>Exceptions\<close>

text \<open>
  The binding reports every failure by setting a Python error with
  \<^verbatim>\<open>PyErr_SetString(PyExc_ValueError, msg)\<close> and throwing
  \<^verbatim>\<open>bp::error_already_set\<close>. The only handlers in the file are
  \<^verbatim>\<open>catch (std::exception& e)\<close>, so the model keeps apart an exception derived
  from \<^verbatim>\<open>std::exception\<close> and an \<^verbatim>\<open>error_already_set\<close>, which carries the Python
  error that was set.
\<close>

datatype py_error = PyExc_ValueError string | PyExc_TypeError string

datatype cpp_exception = std_exception | error_already_set py_error

subsection \<open>What the binding uses of Table.h\<close>

text \<open>
  \<^verbatim>\<open>Table<double,double>::interpolant\<close>: the four enumerators that Table.cpp names.
  A C++ enum object can hold a value that is none of its enumerators; such a value is what
  reaches \<^verbatim>\<open>default:\<close> in \<^verbatim>\<open>convertGetInterp\<close>, and it is \<open>not_an_enumerator\<close> here.
\<close>

datatype interpolant = linear | spline | floor | ceil | not_an_enumerator

text \<open>\<^verbatim>\<open>Table<double,double>::Entry\<close>, of which the binding reads \<^verbatim>\<open>arg\<close> and \<^verbatim>\<open>val\<close>.\<close>

record 'd Entry =
  arg :: 'd
  val :: 'd

text \<open>
  The class \<^verbatim>\<open>Table\<close> itself is declared in Table.h. The functions below take what they
  call of it as parameters:
  \<^item> \<open>stl_input\<close>: reading a \<^verbatim>\<open>bp::object\<close> through \<^verbatim>\<open>bp::stl_input_iterator<double>\<close>
    up to the end iterator, which gives the doubles or throws;
  \<^item> \<open>new_Table\<close>: the constructor \<^verbatim>\<open>Table(vargs, vvals, i)\<close>, which gives a table or throws;
  \<^item> \<open>getV\<close> and \<open>getInterp\<close>: the two accessors.
\<close>

subsection \<open>makeTable\<close>

text \<open>
  One \<^verbatim>\<open>try { ... } catch (std::exception& e) { PyErr_SetString(PyExc_ValueError, msg);
  bp::throw_error_already_set(); }\<close> block around the conversion of one argument: a
  \<^verbatim>\<open>std::exception\<close> is replaced, anything else that is thrown goes through.
\<close>

definition try_insert ::
  "('o \<Rightarrow> cpp_exception + 'd list) \<Rightarrow> 'o \<Rightarrow> string \<Rightarrow> cpp_exception + 'd list" where
  "try_insert stl_input obj msg =
     (case stl_input obj of
        Inl std_exception \<Rightarrow> Inl (error_already_set (PyExc_ValueError msg))
      | Inl (error_already_set e) \<Rightarrow> Inl (error_already_set e)
      | Inr items \<Rightarrow> Inr ([] @ items))"

definition makeTable ::
  "('o \<Rightarrow> cpp_exception + 'd list) \<Rightarrow>
   ('d list \<Rightarrow> 'd list \<Rightarrow> interpolant \<Rightarrow> cpp_exception + 't) \<Rightarrow>
   'o \<Rightarrow> 'o \<Rightarrow> string \<Rightarrow> cpp_exception + 't" where
  "makeTable stl_input new_Table args vals interp =
     (case try_insert stl_input args ''Unable to convert args to C++ vector'' of
        Inl e \<Rightarrow> Inl e
      | Inr vargs \<Rightarrow>
     (case try_insert stl_input vals ''Unable to convert vals to C++ vector'' of
        Inl e \<Rightarrow> Inl e
      | Inr vvals \<Rightarrow>
          if length vargs \<noteq> length vvals
          then Inl (error_already_set (PyExc_ValueError ''args and vals must be the same size''))
          else
           (case (if interp = ''linear'' then Inr linear
                  else if interp = ''spline'' then Inr spline
                  else if interp = ''floor'' then Inr floor
                  else if interp = ''ceil'' then Inr ceil
                  else Inl (error_already_set (PyExc_ValueError ''Invalid interpolant''))) of
              Inl e \<Rightarrow> Inl e
            | Inr i \<Rightarrow> new_Table vargs vvals i)))"

subsection \<open>convertGetArgs, convertGetVals, convertGetInterp\<close>

text \<open>
  \<^verbatim>\<open>for (size_t i=0; i!=v.size(); ++i) l.append(v[i].arg);\<close>
  The loop tests \<^verbatim>\<open>i != v.size()\<close>, so started beyond the size it would not stop:
  not returning is the value \<open>None\<close>.
\<close>

partial_function (option) append_args :: "nat \<Rightarrow> 'd Entry list \<Rightarrow> 'd list \<Rightarrow> 'd list option" where
  "append_args i v l =
     (if i \<noteq> length v then append_args (i + 1) v (l @ [arg (v ! i)]) else Some l)"

partial_function (option) append_vals :: "nat \<Rightarrow> 'd Entry list \<Rightarrow> 'd list \<Rightarrow> 'd list option" where
  "append_vals i v l =
     (if i \<noteq> length v then append_vals (i + 1) v (l @ [val (v ! i)]) else Some l)"

definition convertGetArgs :: "('t \<Rightarrow> 'd Entry list) \<Rightarrow> 't \<Rightarrow> 'd list option" where
  "convertGetArgs getV table = (let v = getV table in append_args 0 v [])"

definition convertGetVals :: "('t \<Rightarrow> 'd Entry list) \<Rightarrow> 't \<Rightarrow> 'd list option" where
  "convertGetVals getV table = (let v = getV table in append_vals 0 v [])"

definition convertGetInterp :: "('t \<Rightarrow> interpolant) \<Rightarrow> 't \<Rightarrow> cpp_exception + string" where
  "convertGetInterp getInterp table =
     (let i = getInterp table in
      case i of
        linear \<Rightarrow> Inr ''linear''
      | spline \<Rightarrow> Inr ''spline''
      | floor \<Rightarrow> Inr ''floor''
      | ceil \<Rightarrow> Inr ''ceil''
      | _ \<Rightarrow> Inl (error_already_set (PyExc_ValueError ''Invalid interpolant'')))"

text \<open>
  An instance of the parameters, for evaluating the functions on concrete inputs: the
  Python object is the list of its items, each a double or not, and the table keeps the
  entries in the order given, with the interpolant.
\<close>

record 'd plain_table =
  entries :: "'d Entry list"
  iType :: interpolant

fun extract_items :: "'d option list \<Rightarrow> cpp_exception + 'd list" where
  "extract_items [] = Inr []"
| "extract_items (None # xs) = Inl (error_already_set (PyExc_TypeError ''No registered converter''))"
| "extract_items (Some x # xs) =
     (case extract_items xs of Inl e \<Rightarrow> Inl e | Inr ys \<Rightarrow> Inr (x # ys))"

definition plain_new_Table ::
  "'d list \<Rightarrow> 'd list \<Rightarrow> interpolant \<Rightarrow> cpp_exception + 'd plain_table" where
  "plain_new_Table vargs vvals i =
     Inr \<lparr>entries = map (\<lambda>(a, b). \<lparr>arg = a, val = b\<rparr>) (zip vargs vvals), iType = i\<rparr>"

section \<open>The Poisson solver's reference configuration (poisson/bf.cfg)\<close>

text \<open>
  The file is a sequence of lines \<^verbatim>\<open>key = value   # comment\<close>. It is kept as the list of
  its assignments in file order, each value as the text between \<^verbatim>\<open>=\<close> and the comment,
  without the surrounding blanks. Lines that are empty or only a comment assign nothing.
\<close>

type_synonym config = "(string \<times> string) list"

definition bf_cfg :: config where
  "bf_cfg =
    [(''w'', ''1.9''),
     (''ncycle'', ''128''),
     (''iterations'', ''1''),
     (''ScaleFactor'', ''2''),
     (''PixelSize'', ''10.0''),
     (''GridsPerPixel'', ''16''),
     (''Nx'', ''160''),
     (''Ny'', ''160''),
     (''XBCType'', ''1''),
     (''YBCType'', ''1''),
     (''SimulationRegionLowerLeft'', ''5.0 5.0''),
     (''Vbb'', ''-60.0''),
     (''Vparallel_lo'', ''-8.0''),
     (''Vparallel_hi'', ''4.0''),
     (''Vserial_lo'', ''-4.0''),
     (''Vserial_lo'', ''6.0''),
     (''Vscupper'', ''19.0''),
     (''GateOxide'', ''0.15''),
     (''BackgroundDoping'', ''-1.0E12''),
     (''ChannelStopDoping'', ''-2.0E12''),
     (''ChannelStopDepth'', ''2.0''),
     (''ChannelStopWidth'', ''2.0''),
     (''ChannelDoping'', ''8.0E11''),
     (''ChannelDepth'', ''1.0''),
     (''UndepletedChannelStop'', ''0''),
     (''Vchannelstop'', ''0.0''),
     (''NumberofPixelRegions'', ''1''),
     (''PixelRegionLowerLeft_0'', ''0.0 0.0''),
     (''PixelRegionUpperRight_0'', ''110.0 110.0''),
     (''NumberofFilledWells_0'', ''1''),
     (''CollectedCharge_0_0'', ''160000''),
     (''FilledPixelCoords_0_0'', ''55.0 55.0''),
     (''DistributedCharge'', ''2''),
     (''NumberofFixedRegions'', ''0''),
     (''ElectronZ0'', ''90.0''),
     (''LogEField'', ''1''),
     (''LogPixels'', ''1''),
     (''LogPixelPaths'', ''1''),
     (''PixelAreas'', ''10''),
     (''NumVertices'', ''8''),
     (''PixelBoundaryTestType'', ''1''),
     (''PixelBoundaryLowerLeft'', ''10.0 10.0''),
     (''PixelBoundaryUpperRight'', ''100.0 100.0''),
     (''PixelBoundaryNx'', ''9''),
     (''PixelBoundaryNy'', ''9''),
     (''Sigmax'', ''0.5''),
     (''Sigmay'', ''0.5''),
     (''Xoffset'', ''0.0''),
     (''Yoffset'', ''0.0''),
     (''NumElec'', ''0''),
     (''NumSteps'', ''1''),
     (''CCDTemperature'', ''173.0''),
     (''DiffMultiplier'', ''1.0''),
     (''NumDiffSteps'', ''16''),
     (''PixelBoundaryStepSize'', ''1.0 0.2''),
     (''outputfiledir'', ''data/run3''),
     (''outputfilebase'', ''BF_256_9x9''),
     (''EdgePlot'', ''0''),
     (''PlotEField'', ''0''),
     (''SaveData'', ''10'')]"

text \<open>The values a key is given, in file order.\<close>

definition assigned :: "config \<Rightarrow> string \<Rightarrow> string list" where
  "assigned cfg key = map snd (filter (\<lambda>kv. fst kv = key) cfg)"

text \<open>
  Modelled from the spec: the configuration loader is not among the sources. Section 9
  speaks of a loader that, for a key assigned twice, is "silently taking the last value".
\<close>

definition load_last :: "config \<Rightarrow> string \<Rightarrow> string option" where
  "load_last cfg key = map_of (rev cfg) key"

text \<open>
  Modelled from the spec: the validator is not among the sources. Section 9 asks to
  "flag duplicate-key configs as a validation warning", and section 3 lists the fixed
  values of a boundary condition: Vbb, Vparallel_hi/lo, Vserial_hi/lo, Vscupper.
\<close>

datatype warning = DuplicateKey string

text \<open>
  One pass over the keys in file order, with the keys seen so far and the duplicates
  found so far; a key is reported once, at its second occurrence.
\<close>

fun duplicates :: "string list \<Rightarrow> string list \<Rightarrow> string list \<Rightarrow> string list" where
  "duplicates seen dups [] = dups"
| "duplicates seen dups (k # ks) =
     (if k \<in> set seen
      then (if k \<in> set dups then duplicates seen dups ks else duplicates seen (dups @ [k]) ks)
      else duplicates (k # seen) dups ks)"

definition validate :: "config \<Rightarrow> warning list" where
  "validate cfg = map DuplicateKey (duplicates [] [] (map fst cfg))"

definition boundary_voltage_fields :: "string list" where
  "boundary_voltage_fields =
     [''Vbb'', ''Vparallel_hi'', ''Vparallel_lo'', ''Vserial_hi'', ''Vserial_lo'', ''Vscupper'']"

section \<open>Grid model, field sampler and carrier tracer, from the specification\<close>

text \<open>The error taxonomy of section 7.\<close>

datatype error = ConfigError | OutOfBounds | NumericalInstability

subsection \<open>Grid model (section 4.1)\<close>

text \<open>Section 3: a grid is an ordered sequence of node coordinates per axis.\<close>

record 'r Grid =
  x_nodes :: "'r list"
  y_nodes :: "'r list"
  z_nodes :: "'r list"

text \<open>
  Modelled from the spec: \<^verbatim>\<open>buildGrid\<close> is not among the sources. Section 4.1:
  "buildGrid(scaleFactor, pixelSize, gridsPerPixel, nx, ny, lowerLeft) -> Grid.
  Constraints: nx, ny must be multiples of 32 (validated; fails with ConfigError
  otherwise)." How the coordinate arrays and the z-spacing profile are computed is not
  said; \<open>make_axes\<close> stands for it.
\<close>

definition buildGrid ::
  "(int \<Rightarrow> 'r \<Rightarrow> int \<Rightarrow> int \<Rightarrow> int \<Rightarrow> 'r \<times> 'r \<Rightarrow> 'r Grid) \<Rightarrow>
   int \<Rightarrow> 'r \<Rightarrow> int \<Rightarrow> int \<Rightarrow> int \<Rightarrow> 'r \<times> 'r \<Rightarrow> error + 'r Grid" where
  "buildGrid make_axes scaleFactor pixelSize gridsPerPixel nx ny lowerLeft =
     (if nx mod 32 = 0 \<and> ny mod 32 = 0
      then Inr (make_axes scaleFactor pixelSize gridsPerPixel nx ny lowerLeft)
      else Inl ConfigError)"

text \<open>
  Modelled from the spec: the run driver is not among the sources. Section 2: it
  "orchestrates region setup -> solve -> trace -> output". \<open>solve\<close> stands for everything
  after the setup of the grid.
\<close>

definition run_driver ::
  "(int \<Rightarrow> 'r \<Rightarrow> int \<Rightarrow> int \<Rightarrow> int \<Rightarrow> 'r \<times> 'r \<Rightarrow> 'r Grid) \<Rightarrow> ('r Grid \<Rightarrow> 'out) \<Rightarrow>
   int \<Rightarrow> 'r \<Rightarrow> int \<Rightarrow> int \<Rightarrow> int \<Rightarrow> 'r \<times> 'r \<Rightarrow> error + 'out" where
  "run_driver make_axes solve scaleFactor pixelSize gridsPerPixel nx ny lowerLeft =
     (case buildGrid make_axes scaleFactor pixelSize gridsPerPixel nx ny lowerLeft of
        Inl e \<Rightarrow> Inl e
      | Inr grid \<Rightarrow> Inr (solve grid))"

subsection \<open>Field sampler (section 4.4)\<close>

type_synonym 'r pos = "'r \<times> 'r \<times> 'r"

text \<open>
  Section 3: a potential field is a dense array of values co-indexed with the nodes of
  its grid; the values are of no concern here.
\<close>

record ('r, 'v) PotentialField =
  field_grid :: "'r Grid"
  potential :: 'v

text \<open>
  The solved extent of a grid: along each axis, from the first node to the last one. A
  grid with no node on an axis has no extent.
\<close>

definition in_axis :: "'r::linorder list \<Rightarrow> 'r \<Rightarrow> bool" where
  "in_axis nodes c = (nodes \<noteq> [] \<and> hd nodes \<le> c \<and> c \<le> last nodes)"

definition in_extent :: "'r::linorder Grid \<Rightarrow> 'r pos \<Rightarrow> bool" where
  "in_extent grid p =
     (case p of (x, y, z) \<Rightarrow>
        in_axis (x_nodes grid) x \<and> in_axis (y_nodes grid) y \<and> in_axis (z_nodes grid) z)"

text \<open>
  Modelled from the spec: \<^verbatim>\<open>fieldAt\<close> is not among the sources. Section 4.4:
  "fieldAt(PotentialField, x, y, z) -> (Ex, Ey, Ez, V). Trilinear interpolation of the 8
  surrounding grid nodes [...]. Fails with OutOfBounds if (x,y,z) lies outside the grid's
  solved extent (before periodic wrap is applied at the edges, where applicable)."
  \<open>trilinear\<close> stands for the interpolation, \<open>'s\<close> for the sample (Ex, Ey, Ez, V).
\<close>

definition fieldAt ::
  "(('r::linorder, 'v) PotentialField \<Rightarrow> 'r pos \<Rightarrow> 's) \<Rightarrow>
   ('r, 'v) PotentialField \<Rightarrow> 'r \<Rightarrow> 'r \<Rightarrow> 'r \<Rightarrow> error + 's" where
  "fieldAt trilinear phi x y z =
     (if in_extent (field_grid phi) (x, y, z) then Inr (trilinear phi (x, y, z))
      else Inl OutOfBounds)"

subsection \<open>Carrier tracer (section 4.5)\<close>

text \<open>
  Section 3: a carrier has a current position, an accumulated path and a terminal state
  among in-flight, landed and absorbed/out-of-bounds.
\<close>

datatype terminal_state = in_flight | landed | absorbed

record 'r Carrier =
  position :: "'r pos"
  path :: "'r pos list"
  state :: terminal_state

text \<open>
  What the tracer is configured with. \<open>advance\<close> stands for the drift and diffusion
  displacement of one step (it is given the number of steps left, the sample and the
  position), \<open>lands\<close> for "z crosses the configured collecting-surface threshold",
  \<open>exits\<close> for "position exits the configured PixelBoundary extents".
\<close>

record ('r, 's) Tracer =
  advance :: "nat \<Rightarrow> 's \<Rightarrow> 'r pos \<Rightarrow> 'r pos"
  lands :: "'r pos \<Rightarrow> bool"
  exits :: "'r pos \<Rightarrow> bool"
  LogPixelPaths :: bool
  max_steps :: nat

text \<open>
  Modelled from the spec: the tracer is not among the sources. Section 4.5: at each
  step the field is sampled at the current position and the position advanced; the
  carrier is \<open>landed\<close> or \<open>absorbed\<close> by the two terminal transitions. Section 7: the
  tracer treats OutOfBounds "as an absorbed terminal transition, not a run-fatal error".
  Any other error of the sampler is passed on. With path logging every position is
  retained, without it only the last one.
\<close>

definition tracer_step ::
  "(('r::linorder, 'v) PotentialField \<Rightarrow> 'r pos \<Rightarrow> 's) \<Rightarrow> ('r, 's) Tracer \<Rightarrow>
   ('r, 'v) PotentialField \<Rightarrow> nat \<Rightarrow> 'r Carrier \<Rightarrow> error + 'r Carrier" where
  "tracer_step trilinear tr phi n c =
     (case position c of (x, y, z) \<Rightarrow>
      case fieldAt trilinear phi x y z of
        Inl OutOfBounds \<Rightarrow> Inr (c\<lparr>state := absorbed\<rparr>)
      | Inl e \<Rightarrow> Inl e
      | Inr s \<Rightarrow>
          let p = advance tr n s (position c);
              c' = c\<lparr>position := p,
                     path := (if LogPixelPaths tr then path c @ [p] else [p])\<rparr>
          in Inr (if lands tr p then c'\<lparr>state := landed\<rparr>
                  else if exits tr p then c'\<lparr>state := absorbed\<rparr>
                  else c'))"

text \<open>
  Section 4.5: "Non-terminal carriers continue until either terminal condition is
  reached or a maximum step budget is exhausted (treated as absorbed)."
\<close>

fun trace ::
  "(('r::linorder, 'v) PotentialField \<Rightarrow> 'r pos \<Rightarrow> 's) \<Rightarrow> ('r, 's) Tracer \<Rightarrow>
   ('r, 'v) PotentialField \<Rightarrow> nat \<Rightarrow> 'r Carrier \<Rightarrow> error + 'r Carrier" where
  "trace trilinear tr phi 0 c =
     Inr (if state c = in_flight then c\<lparr>state := absorbed\<rparr> else c)"
| "trace trilinear tr phi (Suc n) c =
     (if state c \<noteq> in_flight then Inr c
      else case tracer_step trilinear tr phi n c of
             Inl e \<Rightarrow> Inl e
           | Inr c' \<Rightarrow> trace trilinear tr phi n c')"

text \<open>The run over all carriers: an error of one carrier ends it.\<close>

fun trace_all ::
  "(('r::linorder, 'v) PotentialField \<Rightarrow> 'r pos \<Rightarrow> 's) \<Rightarrow> ('r, 's) Tracer \<Rightarrow>
   ('r, 'v) PotentialField \<Rightarrow> 'r Carrier list \<Rightarrow> error + 'r Carrier list" where
  "trace_all trilinear tr phi [] = Inr []"
| "trace_all trilinear tr phi (c # cs) =
     (case trace trilinear tr phi (max_steps tr) c of
        Inl e \<Rightarrow> Inl e
      | Inr c' \<Rightarrow>
         (case trace_all trilinear tr phi cs of
            Inl e \<Rightarrow> Inl e
          | Inr cs' \<Rightarrow> Inr (c' # cs')))"


section \<open>Properties of the binding\<close>

lemma append_args_from:
  "i \<le> length v \<Longrightarrow> append_args i v l = Some (l @ map arg (drop i v))"
proof (induction "length v - i" arbitrary: i l)
  case 0
  then show ?case by (simp add: append_args.simps)
next
  case (Suc n)
  then have lt: "i < length v" by simp
  then have step: "append_args i v l = append_args (i + 1) v (l @ [arg (v ! i)])"
    by (subst append_args.simps) simp
  from Suc lt have "append_args (i + 1) v (l @ [arg (v ! i)]) =
      Some ((l @ [arg (v ! i)]) @ map arg (drop (i + 1) v))"
    by (intro Suc.hyps) simp_all
  with step lt show ?case
    by (simp add: Cons_nth_drop_Suc [symmetric])
qed

lemma append_vals_from:
  "i \<le> length v \<Longrightarrow> append_vals i v l = Some (l @ map val (drop i v))"
proof (induction "length v - i" arbitrary: i l)
  case 0
  then show ?case by (simp add: append_vals.simps)
next
  case (Suc n)
  then have lt: "i < length v" by simp
  then have step: "append_vals i v l = append_vals (i + 1) v (l @ [val (v ! i)])"
    by (subst append_vals.simps) simp
  from Suc lt have "append_vals (i + 1) v (l @ [val (v ! i)]) =
      Some ((l @ [val (v ! i)]) @ map val (drop (i + 1) v))"
    by (intro Suc.hyps) simp_all
  with step lt show ?case
    by (simp add: Cons_nth_drop_Suc [symmetric])
qed

lemma convertGetArgs_map: "convertGetArgs getV table = Some (map arg (getV table))"
  by (simp add: convertGetArgs_def append_args_from)

lemma convertGetVals_map: "convertGetVals getV table = Some (map val (getV table))"
  by (simp add: convertGetVals_def append_vals_from)

text \<open>
  C10. For every table, \<open>getArgs\<close> and \<open>getVals\<close> return, and the two lists they return
  have the length of the table's entry vector; at every index below that length the
  element of \<open>getArgs\<close> is the \<open>arg\<close> and the element of \<open>getVals\<close> is the \<open>val\<close> of one and
  the same entry, the one at that index.
\<close>

theorem getArgs_getVals_paired:
  "\<exists>as vs. convertGetArgs getV table = Some as \<and> convertGetVals getV table = Some vs \<and>
      length as = length (getV table) \<and> length vs = length (getV table) \<and>
      (\<forall>i < length (getV table).
         as ! i = arg (getV table ! i) \<and> vs ! i = val (getV table ! i))"
  by (simp add: convertGetArgs_map convertGetVals_map)

theorem getArgs_getVals_paired_witness:
  "convertGetArgs entries
     \<lparr>entries = [\<lparr>arg = 1, val = 10\<rparr>, \<lparr>arg = 2, val = 20 :: int\<rparr>], iType = linear\<rparr> = Some [1, 2] \<and>
   convertGetVals entries
     \<lparr>entries = [\<lparr>arg = 1, val = 10\<rparr>, \<lparr>arg = 2, val = 20 :: int\<rparr>], iType = linear\<rparr> = Some [10, 20]"
proof -
  let ?t = "\<lparr>entries = [\<lparr>arg = 1, val = 10\<rparr>, \<lparr>arg = 2, val = 20 :: int\<rparr>], iType = linear\<rparr>"
  from getArgs_getVals_paired [of entries ?t]
  obtain as vs where a: "convertGetArgs entries ?t = Some as"
    and v: "convertGetVals entries ?t = Some vs"
    and la: "length as = 2" and lv: "length vs = 2"
    and ix: "\<forall>i < 2. as ! i = arg (entries ?t ! i) \<and> vs ! i = val (entries ?t ! i)"
    by auto
  have i0: "(0::nat) < 2" and i1: "(1::nat) < 2" by simp_all
  from ix i0 have e0: "as ! 0 = 1" "vs ! 0 = 10" by auto
  from ix i1 have e1: "as ! 1 = 2" "vs ! 1 = 20" by auto
  from la e0 e1 have "as = [1, 2]"
    by (cases as; cases "tl as") auto
  moreover from lv e0 e1 have "vs = [10, 20]"
    by (cases vs; cases "tl vs") auto
  ultimately show ?thesis using a v by simp
qed

lemma makeTable_converted:
  assumes "stl_input args = Inr vargs" and "stl_input vals = Inr vvals"
  shows "makeTable stl_input new_Table args vals interp =
     (if length vargs \<noteq> length vvals
      then Inl (error_already_set (PyExc_ValueError ''args and vals must be the same size''))
      else if interp = ''linear'' then new_Table vargs vvals linear
      else if interp = ''spline'' then new_Table vargs vvals spline
      else if interp = ''floor'' then new_Table vargs vvals floor
      else if interp = ''ceil'' then new_Table vargs vvals ceil
      else Inl (error_already_set (PyExc_ValueError ''Invalid interpolant'')))"
  using assms by (simp add: makeTable_def try_insert_def)

lemma try_insert_Inr:
  "try_insert stl_input obj msg = Inr xs \<Longrightarrow> stl_input obj = Inr xs"
  by (auto simp: try_insert_def split: sum.splits cpp_exception.splits)

lemma makeTable_Inr:
  assumes "makeTable stl_input new_Table args vals interp = Inr t"
  shows "\<exists>vargs vvals. stl_input args = Inr vargs \<and> stl_input vals = Inr vvals"
proof -
  from assms obtain vargs where a: "try_insert stl_input args ''Unable to convert args to C++ vector'' = Inr vargs"
    by (auto simp: makeTable_def split: sum.splits)
  with assms obtain vvals where v: "try_insert stl_input vals ''Unable to convert vals to C++ vector'' = Inr vvals"
    by (auto simp: makeTable_def split: sum.splits)
  from a v show ?thesis by (blast dest: try_insert_Inr)
qed

text \<open>
  C8. When \<open>args\<close> and \<open>vals\<close> are read as two vectors of different sizes, \<open>makeTable\<close>
  raises the ValueError "args and vals must be the same size", whatever the constructor
  would do, so no table is constructed; and whenever \<open>makeTable\<close> returns a table, both
  objects were read, the two vectors have the same size, the interpolant name is one of
  the four, and the table is the one the constructor gave for these vectors.
\<close>

theorem makeTable_same_size:
  "(stl_input args = Inr vargs \<longrightarrow> stl_input vals = Inr vvals \<longrightarrow> length vargs \<noteq> length vvals \<longrightarrow>
      makeTable stl_input new_Table args vals interp =
        Inl (error_already_set (PyExc_ValueError ''args and vals must be the same size''))) \<and>
   (makeTable stl_input new_Table args vals interp = Inr t \<longrightarrow>
      (\<exists>xs ys i. stl_input args = Inr xs \<and> stl_input vals = Inr ys \<and> length xs = length ys \<and>
         interp \<in> {''linear'', ''spline'', ''floor'', ''ceil''} \<and> new_Table xs ys i = Inr t))"
proof (intro conjI impI)
  assume "stl_input args = Inr vargs" and "stl_input vals = Inr vvals"
    and "length vargs \<noteq> length vvals"
  then show "makeTable stl_input new_Table args vals interp =
      Inl (error_already_set (PyExc_ValueError ''args and vals must be the same size''))"
    by (simp add: makeTable_converted)
next
  assume made: "makeTable stl_input new_Table args vals interp = Inr t"
  from makeTable_Inr [OF made]
  obtain xs ys where conv: "stl_input args = Inr xs" "stl_input vals = Inr ys"
    by blast
  have eq: "makeTable stl_input new_Table args vals interp =
     (if length xs \<noteq> length ys
      then Inl (error_already_set (PyExc_ValueError ''args and vals must be the same size''))
      else if interp = ''linear'' then new_Table xs ys linear
      else if interp = ''spline'' then new_Table xs ys spline
      else if interp = ''floor'' then new_Table xs ys floor
      else if interp = ''ceil'' then new_Table xs ys ceil
      else Inl (error_already_set (PyExc_ValueError ''Invalid interpolant'')))"
    using conv by (rule makeTable_converted)
  from made eq have len: "length xs = length ys"
    by (auto split: if_splits)
  from made eq len have name: "interp \<in> {''linear'', ''spline'', ''floor'', ''ceil''}"
    by (auto split: if_splits)
  from made eq len name have "\<exists>i. new_Table xs ys i = Inr t"
    by (auto split: if_splits)
  with conv len name
  show "\<exists>xs ys i. stl_input args = Inr xs \<and> stl_input vals = Inr ys \<and> length xs = length ys \<and>
      interp \<in> {''linear'', ''spline'', ''floor'', ''ceil''} \<and> new_Table xs ys i = Inr t"
    by blast
qed

theorem makeTable_same_size_witness:
  "makeTable extract_items plain_new_Table [Some 1, Some 2] [Some (5::int)] ''linear'' =
     Inl (error_already_set (PyExc_ValueError ''args and vals must be the same size'')) \<and>
   makeTable extract_items plain_new_Table [Some 1, Some 2] [Some (10::int), Some 20] ''spline'' =
     Inr \<lparr>entries = [\<lparr>arg = 1, val = 10\<rparr>, \<lparr>arg = 2, val = 20\<rparr>], iType = spline\<rparr> \<and>
   extract_items [Some 1, Some 2] = Inr [1, 2 :: int] \<and>
   extract_items [Some 10, Some 20] = Inr [10, 20 :: int]"
proof -
  let ?args = "[Some 1, Some (2::int)]"
  let ?short = "[Some (5::int)]"
  let ?vals = "[Some 10, Some (20::int)]"
  let ?t = "\<lparr>entries = [\<lparr>arg = 1, val = 10\<rparr>, \<lparr>arg = 2, val = 20 :: int\<rparr>], iType = spline\<rparr>"
  have a: "extract_items ?args = Inr [1, 2]" by simp
  have b: "extract_items ?short = Inr [5]" by simp
  have c: "extract_items ?vals = Inr [10, 20]" by simp
  have ne: "length [1, 2 :: int] \<noteq> length [5 :: int]" by simp
  from makeTable_same_size [of extract_items ?args "[1, 2]" ?short "[5]"
      plain_new_Table "''linear''"] a b ne
  have first: "makeTable extract_items plain_new_Table ?args ?short ''linear'' =
     Inl (error_already_set (PyExc_ValueError ''args and vals must be the same size''))"
    by blast
  have made: "makeTable extract_items plain_new_Table ?args ?vals ''spline'' = Inr ?t"
    by (simp add: makeTable_def try_insert_def plain_new_Table_def)
  from makeTable_same_size [of extract_items ?args "[1, 2]" ?vals "[10, 20]"
      plain_new_Table "''spline''" ?t] made
  obtain xs ys where "extract_items ?args = Inr xs" "extract_items ?vals = Inr ys"
      "length xs = length ys"
    by blast
  with a c have "length [1, 2 :: int] = length [10, 20 :: int]" by simp
  with first made a c show ?thesis by blast
qed

text \<open>
  C9. For a constructor that keeps the interpolant it is given, and each of the four
  names: the table that \<open>makeTable\<close> returns for the name gives the same name back
  through \<open>getInterp\<close>; its interpolant is one of the four enumerators, so the
  conversion to a string does not take its default branch.
\<close>

theorem getInterp_round_trip:
  assumes ctor: "\<forall>a v i t. new_Table a v i = Inr t \<longrightarrow> getInterp t = i"
    and name: "interp \<in> {''linear'', ''spline'', ''floor'', ''ceil''}"
    and made: "makeTable stl_input new_Table args vals interp = Inr t"
  shows "convertGetInterp getInterp t = Inr interp \<and> getInterp t \<noteq> not_an_enumerator"
proof -
  from makeTable_Inr [OF made]
  obtain xs ys where conv: "stl_input args = Inr xs" "stl_input vals = Inr ys"
    by blast
  have eq: "makeTable stl_input new_Table args vals interp =
     (if length xs \<noteq> length ys
      then Inl (error_already_set (PyExc_ValueError ''args and vals must be the same size''))
      else if interp = ''linear'' then new_Table xs ys linear
      else if interp = ''spline'' then new_Table xs ys spline
      else if interp = ''floor'' then new_Table xs ys floor
      else if interp = ''ceil'' then new_Table xs ys ceil
      else Inl (error_already_set (PyExc_ValueError ''Invalid interpolant'')))"
    using conv by (rule makeTable_converted)
  from made eq have len: "length xs = length ys"
    by (auto split: if_splits)
  from name consider "interp = ''linear''" | "interp = ''spline''" | "interp = ''floor''"
    | "interp = ''ceil''" by blast
  then show ?thesis
  proof cases
    case 1
    with made eq len have "new_Table xs ys linear = Inr t" by simp
    with ctor have "getInterp t = linear" by blast
    with 1 show ?thesis by (simp add: convertGetInterp_def)
  next
    case 2
    with made eq len have "new_Table xs ys spline = Inr t" by simp
    with ctor have "getInterp t = spline" by blast
    with 2 show ?thesis by (simp add: convertGetInterp_def)
  next
    case 3
    with made eq len have "new_Table xs ys floor = Inr t" by simp
    with ctor have "getInterp t = floor" by blast
    with 3 show ?thesis by (simp add: convertGetInterp_def)
  next
    case 4
    with made eq len have "new_Table xs ys ceil = Inr t" by simp
    with ctor have "getInterp t = ceil" by blast
    with 4 show ?thesis by (simp add: convertGetInterp_def)
  qed
qed


theorem getInterp_round_trip_witness:
  "makeTable extract_items plain_new_Table [Some 1, Some 2] [Some (10::int), Some 20] ''floor'' =
     Inr \<lparr>entries = [\<lparr>arg = 1, val = 10\<rparr>, \<lparr>arg = 2, val = 20\<rparr>], iType = floor\<rparr> \<and>
   ''floor'' \<in> {''linear'', ''spline'', ''floor'', ''ceil''} \<and>
   convertGetInterp iType
     \<lparr>entries = [\<lparr>arg = 1, val = 10\<rparr>, \<lparr>arg = 2, val = 20 :: int\<rparr>], iType = floor\<rparr> = Inr ''floor''"
proof -
  let ?args = "[Some 1, Some (2::int)]"
  let ?vals = "[Some 10, Some (20::int)]"
  let ?t = "\<lparr>entries = [\<lparr>arg = 1, val = 10\<rparr>, \<lparr>arg = 2, val = 20 :: int\<rparr>], iType = floor\<rparr>"
  have ctor: "\<forall>a v i t. plain_new_Table a v i = Inr (t :: int plain_table) \<longrightarrow> iType t = i"
    by (auto simp: plain_new_Table_def)
  have name: "''floor'' \<in> {''linear'', ''spline'', ''floor'', ''ceil''}" by simp
  have made: "makeTable extract_items plain_new_Table ?args ?vals ''floor'' = Inr ?t"
    by (simp add: makeTable_def try_insert_def plain_new_Table_def)
  from getInterp_round_trip [OF ctor name made]
  have "convertGetInterp iType ?t = Inr ''floor''" by blast
  with made name show ?thesis by blast
qed

text \<open>
  C2, as the binding has it. When \<open>args\<close> and \<open>vals\<close> are read as two vectors of the
  same size, an interpolant name other than "linear", "spline", "floor" and "ceil" raises
  the ValueError "Invalid interpolant" whatever the constructor would do, so before any
  table is created; and for each of the four names \<open>makeTable\<close> raises nothing itself
  and returns what the constructor gives for the two vectors and the interpolant of that
  name.
\<close>

theorem makeTable_interp_checked:
  assumes "stl_input args = Inr vargs" and "stl_input vals = Inr vvals"
    and "length vargs = length vvals"
  shows "(interp \<notin> {''linear'', ''spline'', ''floor'', ''ceil''} \<longrightarrow>
            makeTable stl_input new_Table args vals interp =
              Inl (error_already_set (PyExc_ValueError ''Invalid interpolant''))) \<and>
         makeTable stl_input new_Table args vals ''linear'' = new_Table vargs vvals linear \<and>
         makeTable stl_input new_Table args vals ''spline'' = new_Table vargs vvals spline \<and>
         makeTable stl_input new_Table args vals ''floor'' = new_Table vargs vvals floor \<and>
         makeTable stl_input new_Table args vals ''ceil'' = new_Table vargs vvals ceil"
  using assms by (simp add: makeTable_converted)

theorem makeTable_interp_checked_witness:
  "extract_items [Some 1, Some 2] = Inr [1, 2 :: int] \<and>
   extract_items [Some 10, Some 20] = Inr [10, 20 :: int] \<and>
   length [1, 2 :: int] = length [10, 20 :: int] \<and>
   ''cubic'' \<notin> {''linear'', ''spline'', ''floor'', ''ceil''} \<and>
   makeTable extract_items plain_new_Table [Some 1, Some 2] [Some (10::int), Some 20] ''cubic'' =
     Inl (error_already_set (PyExc_ValueError ''Invalid interpolant'')) \<and>
   makeTable extract_items plain_new_Table [Some 1, Some 2] [Some (10::int), Some 20] ''ceil'' =
     Inr \<lparr>entries = [\<lparr>arg = 1, val = 10\<rparr>, \<lparr>arg = 2, val = 20\<rparr>], iType = ceil\<rparr>"
proof -
  let ?args = "[Some 1, Some (2::int)]"
  let ?vals = "[Some 10, Some (20::int)]"
  have a: "extract_items ?args = Inr [1, 2]" by simp
  have c: "extract_items ?vals = Inr [10, 20]" by simp
  have len: "length [1, 2 :: int] = length [10, 20 :: int]" by simp
  have bad: "''cubic'' \<notin> {''linear'', ''spline'', ''floor'', ''ceil''}" by simp
  note sel = makeTable_interp_checked [of extract_items ?args "[1, 2]" ?vals "[10, 20]"
      "''cubic''" plain_new_Table, OF a c len]
  from sel bad have err: "makeTable extract_items plain_new_Table ?args ?vals ''cubic'' =
      Inl (error_already_set (PyExc_ValueError ''Invalid interpolant''))"
    by blast
  from sel have "makeTable extract_items plain_new_Table ?args ?vals ''ceil'' =
      plain_new_Table [1, 2] [10, 20] ceil"
    by blast
  then have ok: "makeTable extract_items plain_new_Table ?args ?vals ''ceil'' =
      Inr \<lparr>entries = [\<lparr>arg = 1, val = 10\<rparr>, \<lparr>arg = 2, val = 20\<rparr>], iType = ceil\<rparr>"
    by (simp add: plain_new_Table_def)
  from a c len bad err ok show ?thesis by blast
qed

text \<open>
  C2 as stated fails when the sizes differ: the size check comes first, so an unknown
  name is then reported as a size error, and a known name does not construct a table.
\<close>

theorem makeTable_invalid_interp_counterexample:
  "makeTable extract_items plain_new_Table [Some (1::int)] [] ''cubic'' =
     Inl (error_already_set (PyExc_ValueError ''args and vals must be the same size'')) \<and>
   makeTable extract_items plain_new_Table [Some (1::int)] [] ''cubic'' \<noteq>
     Inl (error_already_set (PyExc_ValueError ''Invalid interpolant'')) \<and>
   makeTable extract_items plain_new_Table [Some (1::int)] [] ''linear'' =
     Inl (error_already_set (PyExc_ValueError ''args and vals must be the same size''))"
  by (simp add: makeTable_def try_insert_def)

section \<open>Properties of the configuration and of the specified components\<close>

lemma assigned_Vserial_lo: "assigned bf_cfg ''Vserial_lo'' = [''-4.0'', ''6.0'']"
  by (simp add: assigned_def bf_cfg_def)

lemma Vserial_hi_absent: "assigned bf_cfg ''Vserial_hi'' = []"
  by (simp add: assigned_def bf_cfg_def)

lemma load_Vserial_lo: "load_last bf_cfg ''Vserial_lo'' = Some ''6.0''"
  by (simp add: load_last_def bf_cfg_def)

lemma load_Vserial_hi: "load_last bf_cfg ''Vserial_hi'' = None"
  by (simp add: load_last_def bf_cfg_def)


lemma validate_bf_cfg: "validate bf_cfg = [DuplicateKey ''Vserial_lo'']"
  by (simp add: validate_def bf_cfg_def)


lemma load_Nx: "load_last bf_cfg ''Nx'' = Some ''160''"
  by (simp add: load_last_def bf_cfg_def)

lemma load_Ny: "load_last bf_cfg ''Ny'' = Some ''160''"
  by (simp add: load_last_def bf_cfg_def)

text \<open>
  C7. The reference configuration assigns \<open>Vserial_lo\<close> twice, first -4.0 and then 6.0,
  and \<open>Vserial_hi\<close> never; a loader taking the last value reads 6.0 for \<open>Vserial_lo\<close>
  and nothing for \<open>Vserial_hi\<close>. Both names are fields of the boundary condition, and
  the validator's only warning on the file is the duplicate key \<open>Vserial_lo\<close>.
\<close>

theorem duplicate_Vserial_lo:
  "assigned bf_cfg ''Vserial_lo'' = [''-4.0'', ''6.0''] \<and>
   assigned bf_cfg ''Vserial_hi'' = [] \<and>
   load_last bf_cfg ''Vserial_lo'' = Some ''6.0'' \<and>
   load_last bf_cfg ''Vserial_hi'' = None \<and>
   ''Vserial_lo'' \<in> set boundary_voltage_fields \<and>
   ''Vserial_hi'' \<in> set boundary_voltage_fields \<and>
   validate bf_cfg = [DuplicateKey ''Vserial_lo'']"
proof -
  have "''Vserial_lo'' \<in> set boundary_voltage_fields"
    and "''Vserial_hi'' \<in> set boundary_voltage_fields"
    by (simp_all add: boundary_voltage_fields_def)
  with assigned_Vserial_lo Vserial_hi_absent load_Vserial_lo load_Vserial_hi validate_bf_cfg
  show ?thesis by blast
qed

text \<open>
  C4. \<open>buildGrid\<close> fails with ConfigError whenever \<open>nx\<close> or \<open>ny\<close> is not a multiple of 32,
  and then the run driver fails with it whatever the solver is, so before any solving;
  for \<open>nx\<close> and \<open>ny\<close> both multiples of 32 it returns the grid. The reference
  configuration has Nx = Ny = 160, which pass.
\<close>

theorem buildGrid_multiple_of_32:
  "((\<not> 32 dvd nx \<or> \<not> 32 dvd ny) \<longrightarrow>
      buildGrid make_axes scaleFactor pixelSize gridsPerPixel nx ny lowerLeft = Inl ConfigError \<and>
      run_driver make_axes solve scaleFactor pixelSize gridsPerPixel nx ny lowerLeft =
        Inl ConfigError) \<and>
   (32 dvd nx \<and> 32 dvd ny \<longrightarrow>
      buildGrid make_axes scaleFactor pixelSize gridsPerPixel nx ny lowerLeft =
        Inr (make_axes scaleFactor pixelSize gridsPerPixel nx ny lowerLeft)) \<and>
   load_last bf_cfg ''Nx'' = Some ''160'' \<and> load_last bf_cfg ''Ny'' = Some ''160'' \<and>
   buildGrid make_axes scaleFactor pixelSize gridsPerPixel 160 160 lowerLeft =
     Inr (make_axes scaleFactor pixelSize gridsPerPixel 160 160 lowerLeft)"
proof -
  have bad: "buildGrid make_axes scaleFactor pixelSize gridsPerPixel nx ny lowerLeft = Inl ConfigError"
    if "\<not> 32 dvd nx \<or> \<not> 32 dvd ny"
    using that by (auto simp: buildGrid_def dvd_eq_mod_eq_0)
  have good: "buildGrid make_axes scaleFactor pixelSize gridsPerPixel nx ny lowerLeft =
      Inr (make_axes scaleFactor pixelSize gridsPerPixel nx ny lowerLeft)"
    if "32 dvd nx \<and> 32 dvd ny"
    using that by (simp add: buildGrid_def dvd_eq_mod_eq_0)
  have ref: "buildGrid make_axes scaleFactor pixelSize gridsPerPixel 160 160 lowerLeft =
      Inr (make_axes scaleFactor pixelSize gridsPerPixel 160 160 lowerLeft)"
    by (simp add: buildGrid_def)
  from bad good ref load_Nx load_Ny show ?thesis
    by (simp add: run_driver_def)
qed


theorem buildGrid_multiple_of_32_witness:
  "\<not> 32 dvd (100::int) \<and>
   buildGrid (\<lambda>sf ps gpp nx ny ll. \<lparr>x_nodes = [fst ll], y_nodes = [snd ll], z_nodes = []\<rparr>)
     2 (10::int) 16 100 160 (5, 5) = Inl ConfigError \<and>
   run_driver (\<lambda>sf ps gpp nx ny ll. \<lparr>x_nodes = [fst ll], y_nodes = [snd ll], z_nodes = []\<rparr>)
     x_nodes 2 (10::int) 16 100 160 (5, 5) = Inl ConfigError \<and>
   32 dvd (64::int) \<and> 32 dvd (160::int) \<and>
   buildGrid (\<lambda>sf ps gpp nx ny ll. \<lparr>x_nodes = [fst ll], y_nodes = [snd ll], z_nodes = []\<rparr>)
     2 (10::int) 16 64 160 (5, 5) = Inr \<lparr>x_nodes = [5], y_nodes = [5], z_nodes = []\<rparr>"
proof -
  let ?mk = "\<lambda>(sf::int) (ps::int) (gpp::int) (nx::int) (ny::int) (ll::int \<times> int).
     \<lparr>x_nodes = [fst ll], y_nodes = [snd ll], z_nodes = []\<rparr>"
  have bad: "\<not> 32 dvd (100::int) \<or> \<not> 32 dvd (160::int)" by simp
  have good: "32 dvd (64::int) \<and> 32 dvd (160::int)" by simp
  from buildGrid_multiple_of_32 [of 100 160 ?mk 2 10 16 "(5, 5)" x_nodes] bad
  have b: "buildGrid ?mk 2 10 16 100 160 (5, 5) = Inl ConfigError"
    and r: "run_driver ?mk x_nodes 2 10 16 100 160 (5, 5) = Inl ConfigError"
    by blast+
  from buildGrid_multiple_of_32 [of 64 160 ?mk 2 10 16 "(5, 5)" x_nodes] good
  have "buildGrid ?mk 2 10 16 64 160 (5, 5) = Inr (?mk 2 10 16 64 160 (5, 5))"
    by blast
  then have g: "buildGrid ?mk 2 10 16 64 160 (5, 5) =
      Inr \<lparr>x_nodes = [5], y_nodes = [5], z_nodes = []\<rparr>"
    by simp
  have "\<not> 32 dvd (100::int)" by simp
  with good b r g show ?thesis by blast
qed

lemma fieldAt_error: "fieldAt trilinear phi x y z = Inl e \<Longrightarrow> e = OutOfBounds"
  by (auto simp: fieldAt_def split: if_splits)

lemma tracer_step_Inr: "\<exists>c'. tracer_step trilinear tr phi n c = Inr c'"
proof -
  obtain x y z where p: "position c = (x, y, z)"
    by (cases "position c") auto
  show ?thesis
  proof (cases "fieldAt trilinear phi x y z")
    case (Inl e)
    then have "e = OutOfBounds" by (rule fieldAt_error)
    with Inl p show ?thesis by (simp add: tracer_step_def)
  next
    case (Inr s)
    with p show ?thesis by (simp add: tracer_step_def Let_def)
  qed
qed

lemma trace_Inr:
  "\<exists>c'. trace trilinear tr phi n c = Inr c' \<and> state c' \<noteq> in_flight"
proof (induction n arbitrary: c)
  case 0
  show ?case by simp
next
  case (Suc n)
  show ?case
  proof (cases "state c = in_flight")
    case False
    then show ?thesis by simp
  next
    case True
    obtain c1 where "tracer_step trilinear tr phi n c = Inr c1"
      using tracer_step_Inr by blast
    with True Suc.IH [of c1] show ?thesis by simp
  qed
qed

lemma trace_all_Inr:
  "\<exists>cs'. trace_all trilinear tr phi cs = Inr cs' \<and> length cs' = length cs \<and>
     list_all (\<lambda>c'. state c' \<noteq> in_flight) cs'"
proof (induction cs)
  case Nil
  show ?case by simp
next
  case (Cons c cs)
  obtain c' where c: "trace trilinear tr phi (max_steps tr) c = Inr c'" "state c' \<noteq> in_flight"
    using trace_Inr by blast
  from Cons.IH obtain cs' where "trace_all trilinear tr phi cs = Inr cs'"
    "length cs' = length cs" "list_all (\<lambda>c'. state c' \<noteq> in_flight) cs'"
    by blast
  with c show ?case by simp
qed

lemma tracer_step_outside:
  assumes "\<not> in_extent (field_grid phi) (position c)"
  shows "tracer_step trilinear tr phi n c = Inr (c\<lparr>state := absorbed\<rparr>)"
proof -
  obtain x y z where p: "position c = (x, y, z)"
    by (cases "position c") auto
  with assms have "fieldAt trilinear phi x y z = Inl OutOfBounds"
    by (simp add: fieldAt_def)
  with p show ?thesis by (simp add: tracer_step_def)
qed

lemma trace_outside:
  assumes "state c = in_flight" and "\<not> in_extent (field_grid phi) (position c)"
  shows "trace trilinear tr phi n c = Inr (c\<lparr>state := absorbed\<rparr>)"
proof (cases n)
  case 0
  with assms show ?thesis by simp
next
  case (Suc m)
  from assms(2) have "tracer_step trilinear tr phi m c = Inr (c\<lparr>state := absorbed\<rparr>)"
    by (rule tracer_step_outside)
  with assms(1) Suc show ?thesis
    by (cases m) simp_all
qed

lemma trace_all_nth:
  "trace_all trilinear tr phi cs = Inr cs' \<Longrightarrow> i < length cs \<Longrightarrow>
     trace trilinear tr phi (max_steps tr) (cs ! i) = Inr (cs' ! i)"
proof (induction cs arbitrary: cs' i)
  case Nil
  then show ?case by simp
next
  case (Cons c cs)
  from Cons.prems(1) obtain c' rest where
    c: "trace trilinear tr phi (max_steps tr) c = Inr c'"
    and r: "trace_all trilinear tr phi cs = Inr rest"
    and eq: "cs' = c' # rest"
    by (auto split: sum.splits)
  show ?case
  proof (cases i)
    case 0
    with c eq show ?thesis by simp
  next
    case (Suc j)
    with Cons.prems(2) have "j < length cs" by simp
    with r have "trace trilinear tr phi (max_steps tr) (cs ! j) = Inr (rest ! j)"
      by (rule Cons.IH)
    with Suc eq show ?thesis by simp
  qed
qed

text \<open>
  C5. At a position outside the solved extent \<open>fieldAt\<close> signals OutOfBounds and returns
  no sample. A tracer step of a carrier at such a position returns the carrier, now
  \<open>absorbed\<close>, and so does the trace of a carrier in flight there. The run over any list of
  carriers returns one terminal carrier for each one given, and the carrier at each index
  is the trace of the carrier given at that index: a carrier in flight outside the extent
  comes out \<open>absorbed\<close> and otherwise unchanged, and the carriers after it are traced as
  they are without it.
\<close>

theorem OutOfBounds_absorbed:
  "(\<not> in_extent (field_grid phi) (x, y, z) \<longrightarrow> fieldAt trilinear phi x y z = Inl OutOfBounds) \<and>
   (\<not> in_extent (field_grid phi) (position c) \<longrightarrow>
      tracer_step trilinear tr phi n c = Inr (c\<lparr>state := absorbed\<rparr>) \<and>
      (state c = in_flight \<longrightarrow>
         trace trilinear tr phi (Suc n) c = Inr (c\<lparr>state := absorbed\<rparr>) \<and>
         (\<exists>rest. trace_all trilinear tr phi cs = Inr rest \<and>
            trace_all trilinear tr phi (c # cs) = Inr (c\<lparr>state := absorbed\<rparr> # rest)))) \<and>
   (\<exists>cs'. trace_all trilinear tr phi cs = Inr cs' \<and> length cs' = length cs \<and>
      list_all (\<lambda>c'. state c' \<noteq> in_flight) cs' \<and>
      (\<forall>i < length cs.
         trace trilinear tr phi (max_steps tr) (cs ! i) = Inr (cs' ! i) \<and>
         (state (cs ! i) = in_flight \<and> \<not> in_extent (field_grid phi) (position (cs ! i)) \<longrightarrow>
            cs' ! i = (cs ! i)\<lparr>state := absorbed\<rparr>)))"
proof -
  obtain cs' where all: "trace_all trilinear tr phi cs = Inr cs'"
    and len: "length cs' = length cs"
    and fin: "list_all (\<lambda>c'. state c' \<noteq> in_flight) cs'"
    using trace_all_Inr by blast
  have sample: "fieldAt trilinear phi x y z = Inl OutOfBounds"
    if "\<not> in_extent (field_grid phi) (x, y, z)"
    using that by (simp add: fieldAt_def)
  have step: "tracer_step trilinear tr phi n c = Inr (c\<lparr>state := absorbed\<rparr>)"
    if "\<not> in_extent (field_grid phi) (position c)"
    using that by (rule tracer_step_outside)
  have one: "trace trilinear tr phi (Suc n) c = Inr (c\<lparr>state := absorbed\<rparr>)"
    if "\<not> in_extent (field_grid phi) (position c)" and "state c = in_flight"
    using that by (simp add: trace_outside del: trace.simps)
  have cont: "\<exists>rest. trace_all trilinear tr phi cs = Inr rest \<and>
      trace_all trilinear tr phi (c # cs) = Inr (c\<lparr>state := absorbed\<rparr> # rest)"
    if "\<not> in_extent (field_grid phi) (position c)" and "state c = in_flight"
  proof -
    from that have "trace trilinear tr phi (max_steps tr) c = Inr (c\<lparr>state := absorbed\<rparr>)"
      by (simp add: trace_outside del: trace.simps)
    with all show ?thesis by simp
  qed
  have each: "trace trilinear tr phi (max_steps tr) (cs ! i) = Inr (cs' ! i) \<and>
      (state (cs ! i) = in_flight \<and> \<not> in_extent (field_grid phi) (position (cs ! i)) \<longrightarrow>
         cs' ! i = (cs ! i)\<lparr>state := absorbed\<rparr>)"
    if "i < length cs" for i
  proof -
    from all that have t: "trace trilinear tr phi (max_steps tr) (cs ! i) = Inr (cs' ! i)"
      by (rule trace_all_nth)
    have "cs' ! i = (cs ! i)\<lparr>state := absorbed\<rparr>"
      if "state (cs ! i) = in_flight" and "\<not> in_extent (field_grid phi) (position (cs ! i))"
      using t trace_outside [OF that, of trilinear tr "max_steps tr"] by simp
    with t show ?thesis by blast
  qed
  from all len fin each have run: "\<exists>cs'. trace_all trilinear tr phi cs = Inr cs' \<and>
      length cs' = length cs \<and> list_all (\<lambda>c'. state c' \<noteq> in_flight) cs' \<and>
      (\<forall>i < length cs.
         trace trilinear tr phi (max_steps tr) (cs ! i) = Inr (cs' ! i) \<and>
         (state (cs ! i) = in_flight \<and> \<not> in_extent (field_grid phi) (position (cs ! i)) \<longrightarrow>
            cs' ! i = (cs ! i)\<lparr>state := absorbed\<rparr>))"
    by blast
  from sample step one cont run show ?thesis by blast
qed

theorem OutOfBounds_absorbed_witness:
  "\<not> in_extent (field_grid \<lparr>field_grid = \<lparr>x_nodes = [0, 1, 2], y_nodes = [0, 1, 2], z_nodes = [0, 1, 2 :: int]\<rparr>,
       potential = ()\<rparr>) (5, 1, 1) \<and>
   fieldAt (\<lambda>phi p. fst p)
     \<lparr>field_grid = \<lparr>x_nodes = [0, 1, 2], y_nodes = [0, 1, 2], z_nodes = [0, 1, 2 :: int]\<rparr>,
       potential = ()\<rparr> 5 1 1 = Inl OutOfBounds \<and>
   trace (\<lambda>phi p. fst p)
     \<lparr>advance = \<lambda>n s p. p, lands = \<lambda>p. True, exits = \<lambda>p. False, LogPixelPaths = True,
       max_steps = 4\<rparr>
     \<lparr>field_grid = \<lparr>x_nodes = [0, 1, 2], y_nodes = [0, 1, 2], z_nodes = [0, 1, 2 :: int]\<rparr>,
       potential = ()\<rparr>
     (Suc 3) \<lparr>position = (5, 1, 1), path = [], state = in_flight\<rparr> =
     Inr \<lparr>position = (5, 1, 1), path = [], state = absorbed\<rparr> \<and>
   trace_all (\<lambda>phi p. fst p)
     \<lparr>advance = \<lambda>n s p. p, lands = \<lambda>p. True, exits = \<lambda>p. False, LogPixelPaths = True,
       max_steps = 4\<rparr>
     \<lparr>field_grid = \<lparr>x_nodes = [0, 1, 2], y_nodes = [0, 1, 2], z_nodes = [0, 1, 2 :: int]\<rparr>,
       potential = ()\<rparr>
     [\<lparr>position = (5, 1, 1), path = [], state = in_flight\<rparr>,
      \<lparr>position = (1, 1, 1), path = [], state = in_flight\<rparr>] =
     Inr [\<lparr>position = (5, 1, 1), path = [], state = absorbed\<rparr>,
          \<lparr>position = (1, 1, 1), path = [(1, 1, 1)], state = landed\<rparr>]"
proof -
  let ?phi = "\<lparr>field_grid = \<lparr>x_nodes = [0, 1, 2], y_nodes = [0, 1, 2], z_nodes = [0, 1, 2 :: int]\<rparr>,
       potential = ()\<rparr>"
  let ?tl = "\<lambda>(phi :: (int, unit) PotentialField) (p :: int pos). fst p"
  let ?tr = "\<lparr>advance = \<lambda>(n::nat) (s::int) (p :: int pos). p, lands = \<lambda>p. True,
       exits = \<lambda>p. False, LogPixelPaths = True, max_steps = 4\<rparr>"
  let ?c = "\<lparr>position = (5, 1, 1 :: int), path = [], state = in_flight\<rparr>"
  let ?d = "\<lparr>position = (1, 1, 1 :: int), path = [], state = in_flight\<rparr>"
  let ?d' = "\<lparr>position = (1, 1, 1 :: int), path = [(1, 1, 1)], state = landed\<rparr>"
  have out: "\<not> in_extent (field_grid ?phi) (5, 1, 1)"
    by (simp add: in_extent_def in_axis_def)
  then have outc: "\<not> in_extent (field_grid ?phi) (position ?c)"
    by simp
  have fl: "state ?c = in_flight" by simp
  have four: "max_steps ?tr = Suc 3" by simp
  have "tracer_step ?tl ?tr ?phi 3 ?d = Inr ?d'"
    by (simp add: tracer_step_def fieldAt_def in_extent_def in_axis_def Let_def)
  then have "trace ?tl ?tr ?phi (Suc 3) ?d = Inr ?d'"
    by (simp add: eval_nat_numeral)
  with four have rest: "trace_all ?tl ?tr ?phi [?d] = Inr [?d']"
    by (simp del: trace.simps)
  note inst = OutOfBounds_absorbed [of ?phi 5 1 1 ?tl ?c ?tr 3 "[?d]"]
  from inst out have f: "fieldAt ?tl ?phi 5 1 1 = Inl OutOfBounds"
    by blast
  from inst outc fl have "trace ?tl ?tr ?phi (Suc 3) ?c = Inr (?c\<lparr>state := absorbed\<rparr>)"
    by blast
  then have t: "trace ?tl ?tr ?phi (Suc 3) ?c =
      Inr \<lparr>position = (5, 1, 1), path = [], state = absorbed\<rparr>"
    by simp
  from inst outc fl obtain r where "trace_all ?tl ?tr ?phi [?d] = Inr r"
    and "trace_all ?tl ?tr ?phi [?c, ?d] = Inr (?c\<lparr>state := absorbed\<rparr> # r)"
    by blast
  with rest have a: "trace_all ?tl ?tr ?phi [?c, ?d] =
      Inr [\<lparr>position = (5, 1, 1), path = [], state = absorbed\<rparr>, ?d']"
    by simp
  from out f t a show ?thesis by blast
qed

end
